theory Spec2Isabelle
  imports Main
begin

section \<open>Characters used by the script\<close>

text \<open>
  The script \<^verbatim>\<open>debug_script.py\<close> works on a Python \<^verbatim>\<open>str\<close>; a text is modelled as a
  \<^typ>\<open>string\<close>, one list element per scan unit. The characters the script names in
  literals that are awkward to write inside an Isabelle string are given by code.
\<close>

abbreviation NL :: char where "NL \<equiv> CHR 0x0A"
abbreviation BACKSLASH :: char where "BACKSLASH \<equiv> CHR 0x5C"
abbreviation DQUOTE :: char where "DQUOTE \<equiv> CHR 0x22"
abbreviation SQUOTE :: char where "SQUOTE \<equiv> CHR 0x27"
abbreviation BQUOTE :: char where "BQUOTE \<equiv> CHR 0x60"

section \<open>The classifier: \<^verbatim>\<open>remove_comments_and_strings\<close>\<close>

text \<open>
  The local variables of the function, as they stand at the head of the \<^verbatim>\<open>while\<close> loop.
  \<open>cur_i\<close> is the index \<^verbatim>\<open>i\<close>. \<open>string_char\<close> is a Python string: empty at the start,
  one character long once a quote has been seen. \<open>output_parts\<close> is the list \<^verbatim>\<open>output\<close> of pieces that
  \<^verbatim>\<open>"".join(output)\<close> concatenates at the end.
\<close>

record scan_state =
  cur_i :: nat
  in_string :: bool
  string_char :: string
  in_comment :: bool
  in_block_comment :: bool
  output_parts :: "string list"

text \<open>
  \<^verbatim>\<open>text[i-1]\<close> with Python's indexing: for \<^verbatim>\<open>i = 0\<close> the index is \<^verbatim>\<open>-1\<close>, which
  addresses the last character of the text. The loop runs its body only when
  \<^verbatim>\<open>i < len(text)\<close>, so the text is not empty there and the read cannot raise.
\<close>

definition text_before :: "string \<Rightarrow> nat \<Rightarrow> char" where
  "text_before text i = (if i = 0 then text ! (length text - 1) else text ! (i - 1))"

text \<open>
  One run of the loop body, \<^verbatim>\<open>char = text[i]\<close> up to \<^verbatim>\<open>i += 1\<close>. It is only run when
  \<open>cur_i s < length text\<close>; the reads of \<^verbatim>\<open>text[i+1]\<close> are guarded by \<^verbatim>\<open>i+1 < length\<close>
  in the source as they are here.
\<close>

definition body :: "string \<Rightarrow> scan_state \<Rightarrow> scan_state" where
  "body text s =
    (let i = cur_i s; char = text ! i in
     if in_string s then
       (let s1 = (if [char] = string_char s
                  then (if text_before text i \<noteq> BACKSLASH then s\<lparr>in_string := False\<rparr> else s)
                  else s)
        in s1\<lparr>output_parts := output_parts s1 @ ['' ''], cur_i := i + 1\<rparr>)
     else if in_comment s then
       (if char = NL
        then s\<lparr>in_comment := False, output_parts := output_parts s @ [[char]], cur_i := i + 1\<rparr>
        else s\<lparr>output_parts := output_parts s @ ['' ''], cur_i := i + 1\<rparr>)
     else if in_block_comment s then
       (if char = CHR ''*'' \<and> i + 1 < length text \<and> text ! (i + 1) = CHR ''/''
        then s\<lparr>in_block_comment := False, output_parts := output_parts s @ [''  ''], cur_i := i + 1 + 1\<rparr>
        else s\<lparr>output_parts := output_parts s @ ['' ''], cur_i := i + 1\<rparr>)
     else
       (if char = DQUOTE \<or> char = SQUOTE \<or> char = BQUOTE
        then s\<lparr>in_string := True, string_char := [char],
               output_parts := output_parts s @ ['' ''], cur_i := i + 1\<rparr>
        else if char = CHR ''/'' \<and> i + 1 < length text \<and> text ! (i + 1) = CHR ''/''
        then s\<lparr>in_comment := True, output_parts := output_parts s @ [''  ''], cur_i := i + 1 + 1\<rparr>
        else if char = CHR ''/'' \<and> i + 1 < length text \<and> text ! (i + 1) = CHR ''*''
        then s\<lparr>in_block_comment := True, output_parts := output_parts s @ [''  ''], cur_i := i + 1 + 1\<rparr>
        else s\<lparr>output_parts := output_parts s @ [[char]], cur_i := i + 1\<rparr>))"

text \<open>The \<^verbatim>\<open>while i < length\<close> loop.\<close>

function loop :: "string \<Rightarrow> scan_state \<Rightarrow> scan_state" where
  "loop text s = (if cur_i s < length text then loop text (body text s) else s)"
  by pat_completeness auto
termination
proof (relation "measure (\<lambda>(text, s). length text - cur_i s)")
  show "wf (measure (\<lambda>(text, s). length text - cur_i s))" by simp
next
  fix t :: string and s :: scan_state
  assume "cur_i s < length t"
  moreover have "cur_i s < cur_i (body t s)" by (simp add: body_def Let_def)
  ultimately show "((t, body t s), (t, s)) \<in> measure (\<lambda>(text, s). length text - cur_i s)"
    by simp
qed

declare loop.simps [simp del]

text \<open>The values of the locals before the loop.\<close>

definition init :: scan_state where
  "init = \<lparr>cur_i = 0, in_string = False, string_char = [], in_comment = False,
           in_block_comment = False, output_parts = []\<rparr>"

definition remove_comments_and_strings :: "string \<Rightarrow> string" where
  "remove_comments_and_strings text = concat (output_parts (loop text init))"

section \<open>The matcher: \<^verbatim>\<open>check_balance\<close>\<close>

text \<open>The module-level dictionary \<^verbatim>\<open>pairs\<close>, with all four of its entries.\<close>

definition pairs :: "char \<rightharpoonup> char" where
  "pairs = map_of [(CHR '')'', CHR ''(''), (CHR ''}'', CHR ''{''),
                   (CHR '']'', CHR ''[''), (CHR ''>'', CHR ''<'')]"

text \<open>
  The four messages \<^verbatim>\<open>check_balance\<close> can return, each with the values its f-string
  interpolates:
  \<^item> \<^verbatim>\<open>"Balanced"\<close>;
  \<^item> \<^verbatim>\<open>"Unmatched closing '{char}' at line {line_no}, char {i}"\<close>;
  \<^item> \<^verbatim>\<open>"Mismatched closing '{char}' at line {line_no} (opened by '{last_open}' at index {idx})"\<close>;
  \<^item> \<^verbatim>\<open>"Unclosed '{last_open}' at line {line_no}"\<close>.
\<close>

datatype diagnostic =
  Balanced
  | UnmatchedClosing char nat nat
  | MismatchedClosing char nat char nat
  | UnclosedOpening char nat

text \<open>\<^verbatim>\<open>text[:i].count('\n') + 1\<close>\<close>

definition line_no :: "string \<Rightarrow> nat \<Rightarrow> nat" where
  "line_no text i = count_list (take i text) NL + 1"

text \<open>The two membership tests of the loop, \<^verbatim>\<open>char in '({['\<close> and \<^verbatim>\<open>char in ')}]'\<close>.\<close>

definition is_opener :: "char \<Rightarrow> bool" where
  "is_opener char = (char \<in> set ''({['')"

definition is_closer :: "char \<Rightarrow> bool" where
  "is_closer char = (char \<in> set '')}]'')"

text \<open>
  The \<^verbatim>\<open>for i, char in enumerate(text)\<close> loop over the pairs still to visit. The stack is
  a Python list: \<^verbatim>\<open>append\<close> adds at the end, \<^verbatim>\<open>pop()\<close> removes the last element, so the
  top of the stack is \<^const>\<open>last\<close> and the bottom is \<^const>\<open>hd\<close>. A \<^verbatim>\<open>return\<close> inside
  the loop is \<open>Inl\<close>; running off the end of the text is \<open>Inr\<close> with the final stack.
  \<^verbatim>\<open>pairs[char]\<close> is only evaluated for a character of \<^verbatim>\<open>')}]'\<close>, which is a key.
\<close>

fun for_loop :: "string \<Rightarrow> (nat \<times> char) list \<Rightarrow> (char \<times> nat) list
    \<Rightarrow> diagnostic + (char \<times> nat) list" where
  "for_loop text [] stack = Inr stack"
| "for_loop text ((i, char) # rest) stack =
    (if is_opener char then for_loop text rest (stack @ [(char, i)])
     else if is_closer char then
       (if stack = [] then Inl (UnmatchedClosing char (line_no text i) i)
        else (case last stack of (last_open, idx) \<Rightarrow>
          if pairs char \<noteq> Some last_open
          then Inl (MismatchedClosing char (line_no text i) last_open idx)
          else for_loop text rest (butlast stack)))
     else for_loop text rest stack)"

definition check_balance :: "string \<Rightarrow> diagnostic" where
  "check_balance text =
    (case for_loop text (enumerate 0 text) [] of
       Inl d \<Rightarrow> d
     | Inr stack \<Rightarrow>
        (if stack \<noteq> [] then
           (case last stack of (last_open, idx) \<Rightarrow> UnclosedOpening last_open (line_no text idx))
         else Balanced))"

text \<open>
  What the script prints, \<^verbatim>\<open>print(check_balance(code))\<close>: the matcher runs on the raw
  text. The call \<^verbatim>\<open>clean_code = remove_comments_and_strings(code)\<close> is commented out in
  the source.
\<close>

definition script_result :: "string \<Rightarrow> diagnostic" where
  "script_result code = check_balance code"

section \<open>Empty text\<close>

text \<open>
  C7: scanning the empty text returns \<open>Balanced\<close>.
\<close>

theorem empty_text_balanced: "script_result [] = Balanced"
  by (simp add: script_result_def check_balance_def)

end
